theory Spec2Isabelle
  imports Main "HOL-Library.Sublist"
begin

section \<open>The memu\_memory plugin: data model\<close>

text \<open>
  The plugin is one Python module with a module-level client handle and three entry
  points. Python strings are modelled as \<^typ>\<open>string\<close>; the fixed non-ASCII messages of
  the source are given by their UTF-8 bytes, which concatenation and joining respect.

  Logging goes to the host's logger; it never influences a result or the control flow,
  and is left out of the model.
\<close>

text \<open>
  A value of \<open>exn\<close> is a raised Python object \<open>e\<close>: \<open>is_Exception e\<close> is
  \<open>isinstance(e, Exception)\<close>, \<open>type_name e\<close> is \<open>type(e).__name__\<close> and \<open>message e\<close>
  is \<open>str(e)\<close>. What is raised need not be an \<open>Exception\<close>: \<open>KeyboardInterrupt\<close>,
  \<open>SystemExit\<close> and \<open>asyncio.CancelledError\<close> derive from \<open>BaseException\<close> only. Every
  handler of the module is \<open>except Exception as e\<close>, which such a raise passes.
\<close>

datatype exn = Exn (is_Exception: bool) (type_name: string) (message: string)

definition ConnectionError :: "string \<Rightarrow> exn" where
  "ConnectionError msg = Exn True ''ConnectionError'' msg"

definition RuntimeError :: "string \<Rightarrow> exn" where
  "RuntimeError msg = Exn True ''RuntimeError'' msg"


text \<open>The configuration class \<open>MemUConfig\<close>, read anew by every call.\<close>

record MemUConfig =
  MEMU_API_KEY :: string
  BASE_URL :: string
  AGENT_ID :: string
  AGENT_NAME :: string
  RECALL_TOP_K :: int

text \<open>The part of the host's \<open>AgentCtx\<close> that the module reads.\<close>

record ChatMessage =
  role :: string
  content :: string

record AgentCtx =
  from_chat_key :: string
  channel_name :: string
  message_history :: "ChatMessage list"

text \<open>
  What the remote service returns. Of a retrieved item only
  \<open>memory_item.memory.content\<close> is read; of a memorize response only \<open>task_id\<close>.
\<close>

record Memory =
  memory_content :: string

record RelatedMemoryItem =
  memory :: Memory

record RetrieveResponse =
  related_memories :: "RelatedMemoryItem list"

record MemorizeResponse =
  task_id :: string

text \<open>A Python dict with string keys and values, in insertion order.\<close>

type_synonym pydict = "(string \<times> string) list"

text \<open>
  The collaborators of one call: the configuration the host hands out, the constructor
  of the client class, and the two methods of a client. Each of the three may raise.
  A client object defines no truth value of its own, so a constructed client is truthy;
  a response is \<open>None\<close> or a response object.
\<close>

record 'c env =
  get_config :: MemUConfig
  MemuClient :: "string \<Rightarrow> string \<Rightarrow> exn + 'c"
  client_retrieve_related_memory_items ::
    "'c \<Rightarrow> string \<Rightarrow> string \<Rightarrow> int \<Rightarrow> exn + RetrieveResponse option"
  client_memorize_conversation ::
    "'c \<Rightarrow> pydict list \<Rightarrow> string \<Rightarrow> string \<Rightarrow> string \<Rightarrow> string \<Rightarrow> exn + MemorizeResponse"

text \<open>
  The module state: the global \<open>memu_client\<close>, and the list of calls made to the
  collaborators so far, each with its arguments, in order.
\<close>

datatype call =
  Construct string string
| Retrieve string string int
| Memorize "pydict list" string string string string

record 'c state =
  memu_client :: "'c option"
  calls :: "call list"

definition initial_state :: "'c state" where
  "initial_state = \<lparr>memu_client = None, calls = []\<rparr>"

section \<open>Handlers\<close>

text \<open>
  \<open>try: body  except Exception as e: handler\<close>, on the outcome of the body: a raise of
  the body that is an instance of \<open>Exception\<close> is handed to the handler, together with
  the state the body left behind; any other raise of the body propagates out of the
  statement unchanged.
\<close>

definition try_except ::
  "(exn + 'a) \<times> 's \<Rightarrow> (exn \<Rightarrow> 's \<Rightarrow> (exn + 'a) \<times> 's) \<Rightarrow> (exn + 'a) \<times> 's" where
  "try_except body handler =
     (case body of
        (Inl e, s) \<Rightarrow> if is_Exception e then handler e s else (Inl e, s)
      | (Inr v, s) \<Rightarrow> (Inr v, s))"

section \<open>Client lifecycle\<close>

text \<open>
  The ensure step returns nothing; it ends by returning or by a raise of the constructor
  that its handler lets pass. Either way the state it leaves is the second component.
\<close>

definition initialize_client_if_needed :: "'c env \<Rightarrow> 'c state \<Rightarrow> (exn + unit) \<times> 'c state" where
  "initialize_client_if_needed w s =
     (if memu_client s \<noteq> None then (Inr (), s)
      else
        let current_config = get_config w in
        if MEMU_API_KEY current_config = [] then (Inr (), s)
        else
          let s' = s\<lparr>calls := calls s @
                     [Construct (BASE_URL current_config) (MEMU_API_KEY current_config)]\<rparr>
          in try_except
               (case MemuClient w (BASE_URL current_config) (MEMU_API_KEY current_config) of
                  Inr c \<Rightarrow> (Inr (), s'\<lparr>memu_client := Some c\<rparr>)
                | Inl e \<Rightarrow> (Inl e, s'))
               (\<lambda>e s2. (Inr (), s2)))"

section \<open>Python operations on strings and lists\<close>

definition newline :: string where
  "newline = [CHR 0x0A]"

text \<open>\<open>sep.join(xs)\<close>.\<close>

fun join :: "string \<Rightarrow> string list \<Rightarrow> string" where
  "join sep [] = []"
| "join sep [x] = x"
| "join sep (x # y # ys) = x @ sep @ join sep (y # ys)"

text \<open>
  The slice \<open>xs[i:]\<close>: a negative start counts from the end, and a start outside the
  list is clamped to it.
\<close>

definition slice_from :: "int \<Rightarrow> 'a list \<Rightarrow> 'a list" where
  "slice_from i xs =
     (let n = int (length xs);
          start = (if i < 0 then max (n + i) 0 else min i n)
      in drop (nat start) xs)"

text \<open>\<open>str(n)\<close> for a natural number: its decimal digits.\<close>

definition digit :: "nat \<Rightarrow> char" where
  "digit d = ''0123456789'' ! d"

fun str_nat :: "nat \<Rightarrow> string" where
  "str_nat n = (if n < 10 then [digit n] else str_nat (n div 10) @ [digit (n mod 10)])"

declare str_nat.simps [simp del]

section \<open>Automatic recall: the prompt injection hook\<close>

definition memories_header :: string where
  "memories_header = ''--- Relevant Memories Retrieved From Your Past ---''"

text \<open>The loop that appends one line per retrieved item to \<open>prompt_lines\<close>.\<close>

fun append_prompt_lines :: "string list \<Rightarrow> RelatedMemoryItem list \<Rightarrow> string list" where
  "append_prompt_lines prompt_lines [] = prompt_lines"
| "append_prompt_lines prompt_lines (memory_item # rest) =
     append_prompt_lines
       (prompt_lines @ [''- '' @ memory_content (memory memory_item)]) rest"

definition recent_history :: "AgentCtx \<Rightarrow> string list" where
  "recent_history ctx =
     map (\<lambda>msg. role msg @ '': '' @ content msg) (slice_from (- 4) (message_history ctx))"

definition query_text :: "AgentCtx \<Rightarrow> string" where
  "query_text ctx = join newline (recent_history ctx)"

text \<open>The body of the \<open>try\<close> block of the hook, run with the client at hand.\<close>

definition inject_guarded ::
  "'c env \<Rightarrow> 'c \<Rightarrow> MemUConfig \<Rightarrow> AgentCtx \<Rightarrow> 'c state \<Rightarrow> (exn + string) \<times> 'c state" where
  "inject_guarded w client current_config ctx s =
     (if query_text ctx = [] then (Inr [], s)
      else
        let s' = s\<lparr>calls := calls s @
                   [Retrieve (query_text ctx) (from_chat_key ctx) (RECALL_TOP_K current_config)]\<rparr>
        in case client_retrieve_related_memory_items w client
                  (query_text ctx) (from_chat_key ctx) (RECALL_TOP_K current_config) of
             Inl e \<Rightarrow> (Inl e, s')
           | Inr retrieved_response \<Rightarrow>
               (case retrieved_response of
                  None \<Rightarrow> (Inr [], s')
                | Some r \<Rightarrow>
                    if related_memories r = [] then (Inr [], s')
                    else (Inr (join newline
                                 (append_prompt_lines [memories_header] (related_memories r))),
                          s')))"

definition inject_relevant_memories ::
  "'c env \<Rightarrow> AgentCtx \<Rightarrow> 'c state \<Rightarrow> (exn + string) \<times> 'c state" where
  "inject_relevant_memories w ctx s =
     (case initialize_client_if_needed w s of
        (Inl e, s1) \<Rightarrow> (Inl e, s1)
      | (Inr u, s1) \<Rightarrow>
          let current_config = get_config w
          in case memu_client s1 of
               None \<Rightarrow> (Inr [], s1)
             | Some client \<Rightarrow>
                 if RECALL_TOP_K current_config = 0 then (Inr [], s1)
                 else try_except (inject_guarded w client current_config ctx s1)
                        (\<lambda>e s2. (Inr [], s2)))"

section \<open>Memorize\<close>

definition not_initialized_message :: string where
  "not_initialized_message =
     ''memu.so client is not initialized or failed to initialize. '' @
     ''Please check the plugin configuration.''"

text \<open>
  The confirmation is a check mark and a space, the persona's name, and a fixed sentence
  (in English: ``has received the instruction and will note the content down!'').
\<close>

definition confirmation_prefix :: string where
  "confirmation_prefix = map char_of [0xE2, 0x9C, 0x85, 0x20 :: nat]"

definition confirmation_suffix :: string where
  "confirmation_suffix = map char_of
     [0x20, 0xE5, 0xB7, 0xB2, 0xE7, 0xBB, 0x8F, 0xE6, 0x94, 0xB6, 0xE5, 0x88, 0xB0, 0xE6,
      0x8C, 0x87, 0xE4, 0xBB, 0xA4, 0xEF, 0xBC, 0x8C, 0xE4, 0xBC, 0x9A, 0xE6, 0x8A, 0x8A,
      0xE5, 0x86, 0x85, 0xE5, 0xAE, 0xB9, 0xE8, 0xAE, 0xB0, 0xE4, 0xB8, 0x8B, 0xE6, 0x9D,
      0xA5, 0xE7, 0x9A, 0x84, 0xEF, 0xBC, 0x81 :: nat]"

text \<open>
  The body of the \<open>try\<close> block. The entry point below also takes \<open>chat_key\<close>; its
  further \<open>*args\<close> and \<open>**kwargs\<close> are never read and are not parameters of the model.
\<close>

definition memorize_guarded ::
  "'c env \<Rightarrow> 'c \<Rightarrow> AgentCtx \<Rightarrow> string \<Rightarrow> string option \<Rightarrow> string option \<Rightarrow> 'c state
     \<Rightarrow> (exn + string) \<times> 'c state" where
  "memorize_guarded w client ctx conversation agent_id agent_name s =
     (let current_config = get_config w;
          final_agent_id = (case agent_id of Some a \<Rightarrow> a | None \<Rightarrow> AGENT_ID current_config);
          final_agent_name =
            (case agent_name of Some a \<Rightarrow> a | None \<Rightarrow> AGENT_NAME current_config);
          structured_conversation = [[(''role'', ''user''), (''content'', conversation)]];
          s' = s\<lparr>calls := calls s @
                 [Memorize structured_conversation (from_chat_key ctx) (channel_name ctx)
                    final_agent_id final_agent_name]\<rparr>
      in case client_memorize_conversation w client structured_conversation
                (from_chat_key ctx) (channel_name ctx) final_agent_id final_agent_name of
           Inl e \<Rightarrow> (Inl e, s')
         | Inr memo_response \<Rightarrow>
             (Inr (confirmation_prefix @ final_agent_name @ confirmation_suffix), s'))"

definition memorize_conversation ::
  "'c env \<Rightarrow> AgentCtx \<Rightarrow> string \<Rightarrow> string \<Rightarrow> string option \<Rightarrow> string option \<Rightarrow> 'c state
     \<Rightarrow> (exn + string) \<times> 'c state" where
  "memorize_conversation w ctx chat_key conversation agent_id agent_name s =
     (case initialize_client_if_needed w s of
        (Inl e, s1) \<Rightarrow> (Inl e, s1)
      | (Inr u, s1) \<Rightarrow>
          (case memu_client s1 of
             None \<Rightarrow> (Inl (ConnectionError not_initialized_message), s1)
           | Some client \<Rightarrow>
               try_except (memorize_guarded w client ctx conversation agent_id agent_name s1)
                 (\<lambda>e s2. (Inl (RuntimeError
                     (''Failed to memorize conversation: '' @ type_name e @ '': '' @ message e)),
                   s2))))"

section \<open>Active recall\<close>

text \<open>
  The two fixed texts of recall, in English: ``(No relevant information was found in
  memory.)'' and ``From what I recall, this is the information most relevant to your
  question:'', the second followed by a newline.
\<close>

definition nothing_found_message :: string where
  "nothing_found_message = map char_of
     [0xEF, 0xBC, 0x88, 0xE5, 0x9C, 0xA8, 0xE8, 0xAE, 0xB0, 0xE5, 0xBF, 0x86, 0xE4, 0xB8,
      0xAD, 0xE6, 0xB2, 0xA1, 0xE6, 0x9C, 0x89, 0xE6, 0x89, 0xBE, 0xE5, 0x88, 0xB0, 0xE7,
      0x9B, 0xB8, 0xE5, 0x85, 0xB3, 0xE4, 0xBF, 0xA1, 0xE6, 0x81, 0xAF, 0xE3, 0x80, 0x82,
      0xEF, 0xBC, 0x89 :: nat]"

definition lead_in :: string where
  "lead_in = map char_of
     [0xE6, 0xA0, 0xB9, 0xE6, 0x8D, 0xAE, 0xE6, 0x88, 0x91, 0xE7, 0x9A, 0x84, 0xE5, 0x9B,
      0x9E, 0xE5, 0xBF, 0x86, 0xEF, 0xBC, 0x8C, 0xE4, 0xBB, 0xA5, 0xE4, 0xB8, 0x8B, 0xE6,
      0x98, 0xAF, 0xE4, 0xB8, 0x8E, 0xE6, 0x82, 0xA8, 0xE9, 0x97, 0xAE, 0xE9, 0xA2, 0x98,
      0xE6, 0x9C, 0x80, 0xE7, 0x9B, 0xB8, 0xE5, 0x85, 0xB3, 0xE7, 0x9A, 0x84, 0xE4, 0xBF,
      0xA1, 0xE6, 0x81, 0xAF, 0xEF, 0xBC, 0x9A :: nat] @ newline"

text \<open>
  The loop over \<open>enumerate(related_memories)\<close>, which extends \<open>response_text\<close> by one
  numbered line per item; \<open>i\<close> is the index of the next item.
\<close>

fun append_numbered :: "string \<Rightarrow> nat \<Rightarrow> RelatedMemoryItem list \<Rightarrow> string" where
  "append_numbered response_text i [] = response_text"
| "append_numbered response_text i (memory_item # rest) =
     append_numbered
       (response_text @ str_nat (i + 1) @ ''. '' @ memory_content (memory memory_item) @ newline)
       (i + 1) rest"

definition recall_guarded ::
  "'c env \<Rightarrow> 'c \<Rightarrow> AgentCtx \<Rightarrow> string \<Rightarrow> 'c state \<Rightarrow> (exn + string) \<times> 'c state" where
  "recall_guarded w client ctx query s =
     (let s' = s\<lparr>calls := calls s @ [Retrieve query (from_chat_key ctx) 3]\<rparr>
      in case client_retrieve_related_memory_items w client query (from_chat_key ctx) 3 of
           Inl e \<Rightarrow> (Inl e, s')
         | Inr retrieved_response \<Rightarrow>
             (case retrieved_response of
                None \<Rightarrow> (Inr nothing_found_message, s')
              | Some r \<Rightarrow>
                  if related_memories r = [] then (Inr nothing_found_message, s')
                  else (Inr (append_numbered lead_in 0 (related_memories r)), s')))"

definition recall_memory ::
  "'c env \<Rightarrow> AgentCtx \<Rightarrow> string \<Rightarrow> 'c state \<Rightarrow> (exn + string) \<times> 'c state" where
  "recall_memory w ctx query s =
     (case initialize_client_if_needed w s of
        (Inl e, s1) \<Rightarrow> (Inl e, s1)
      | (Inr u, s1) \<Rightarrow>
          (case memu_client s1 of
             None \<Rightarrow> (Inl (ConnectionError not_initialized_message), s1)
           | Some client \<Rightarrow>
               try_except (recall_guarded w client ctx query s1)
                 (\<lambda>e s2. (Inl (RuntimeError
                     (''Failed to recall memory: '' @ type_name e @ '': '' @ message e)), s2))))"

section \<open>The host calls the entry points one after another\<close>




section \<open>Example inputs\<close>

text \<open>
  Concrete configurations, contexts and collaborators, on which the theorems below are
  instantiated.
\<close>

definition cfg0 :: MemUConfig where
  "cfg0 = \<lparr>MEMU_API_KEY = ''key'', BASE_URL = ''https://api.memu.so'',
           AGENT_ID = ''nekro_agent'', AGENT_NAME = ''Nekro Assistant'', RECALL_TOP_K = 3\<rparr>"

definition ctx0 :: AgentCtx where
  "ctx0 = \<lparr>from_chat_key = ''chat_1'', channel_name = ''Alice'',
           message_history = [\<lparr>role = ''user'', content = ''hello''\<rparr>]\<rparr>"

text \<open>The client is constructed, and every call to the service times out.\<close>

definition failing_env :: "unit env" where
  "failing_env = \<lparr>get_config = cfg0, MemuClient = (\<lambda>url key. Inr ()),
      client_retrieve_related_memory_items =
        (\<lambda>c q u k. Inl (Exn True ''TimeoutError'' ''timed out'')),
      client_memorize_conversation =
        (\<lambda>c conv u n a b. Inl (Exn True ''TimeoutError'' ''timed out''))\<rparr>"


text \<open>The constructor of the client raises.\<close>

definition broken_env :: "unit env" where
  "broken_env = failing_env\<lparr>MemuClient := (\<lambda>url key. Inl (Exn True ''ValueError'' ''bad url''))\<rparr>"

text \<open>The service answers: retrieval finds two memories, memorize accepts the task.\<close>

definition two_memories :: "RelatedMemoryItem list" where
  "two_memories = [\<lparr>memory = \<lparr>memory_content = ''likes blue''\<rparr>\<rparr>,
                   \<lparr>memory = \<lparr>memory_content = ''dislikes coffee''\<rparr>\<rparr>]"

definition good_env :: "unit env" where
  "good_env = \<lparr>get_config = cfg0, MemuClient = (\<lambda>url key. Inr ()),
      client_retrieve_related_memory_items =
        (\<lambda>c q u k. Inr (Some \<lparr>related_memories = two_memories\<rparr>)),
      client_memorize_conversation = (\<lambda>c conv u n a b. Inr \<lparr>task_id = ''task_42''\<rparr>)\<rparr>"






section \<open>Facts about the helper functions\<close>

lemma slice_from_last4: "slice_from (- 4) xs = drop (length xs - 4) xs"
  by (simp add: slice_from_def Let_def max_def nat_diff_distrib')

lemma join_Cons: "join sep (x # xs) = x @ concat (map (\<lambda>y. sep @ y) xs)"
  by (induction xs arbitrary: x) simp_all

lemma append_prompt_lines_map:
  "append_prompt_lines acc ms = acc @ map (\<lambda>m. ''- '' @ memory_content (memory m)) ms"
  by (induction ms arbitrary: acc) simp_all

lemma append_numbered_enumerate:
  "append_numbered acc i ms =
     acc @ concat (map (\<lambda>(k, m). str_nat (k + 1) @ ''. '' @ memory_content (memory m) @ newline)
                      (enumerate i ms))"
  by (induction ms arbitrary: acc i) simp_all

lemma append_numbered_from:
  "append_numbered acc i ms =
     acc @ concat (map (\<lambda>k. str_nat (Suc (i + k)) @ ''. '' @ memory_content (memory (ms ! k)) @ newline)
                      [0..<length ms])"
proof (induction ms arbitrary: acc i)
  case Nil
  show ?case by simp
next
  case (Cons m ms)
  have "[0..<length (m # ms)] = 0 # map Suc [0..<length ms]"
    by (simp add: upt_conv_Cons map_Suc_upt del: upt_Suc)
  then show ?case
    by (simp add: Cons.IH comp_def del: upt_Suc)
qed

lemma query_text_empty: "query_text ctx = [] \<longleftrightarrow> message_history ctx = []"
proof (cases "slice_from (- 4) (message_history ctx)")
  case Nil
  then show ?thesis
    by (cases "message_history ctx") (auto simp: query_text_def recent_history_def slice_from_last4)
next
  case (Cons m ms)
  then show ?thesis
    by (auto simp: query_text_def recent_history_def join_Cons slice_from_last4)
qed

section \<open>Facts about handlers and the ensure step\<close>

lemma try_except_returns: "try_except (Inr v, s) handler = (Inr v, s)"
  by (simp add: try_except_def)

lemma try_except_handles:
  "is_Exception e \<Longrightarrow> try_except (Inl e, s) handler = handler e s"
  by (simp add: try_except_def)

lemma try_except_passes:
  "\<not> is_Exception e \<Longrightarrow> try_except (Inl e, s) handler = (Inl e, s)"
  by (simp add: try_except_def)

lemma initialize_present:
  "memu_client s = Some c \<Longrightarrow> initialize_client_if_needed w s = (Inr (), s)"
  by (simp add: initialize_client_if_needed_def)

lemma initialize_no_key:
  "MEMU_API_KEY (get_config w) = [] \<Longrightarrow> memu_client s = None \<Longrightarrow>
   initialize_client_if_needed w s = (Inr (), s)"
  by (simp add: initialize_client_if_needed_def)

lemma initialize_constructs:
  assumes "memu_client s = None" and "MEMU_API_KEY (get_config w) \<noteq> []"
      and "MemuClient w (BASE_URL (get_config w)) (MEMU_API_KEY (get_config w)) = Inr c"
  shows "initialize_client_if_needed w s =
           (Inr (),
            s\<lparr>calls := calls s @ [Construct (BASE_URL (get_config w)) (MEMU_API_KEY (get_config w))],
              memu_client := Some c\<rparr>)"
  using assms by (simp add: initialize_client_if_needed_def Let_def try_except_returns)

lemma initialize_fails:
  assumes "memu_client s = None" and "MEMU_API_KEY (get_config w) \<noteq> []"
      and "MemuClient w (BASE_URL (get_config w)) (MEMU_API_KEY (get_config w)) = Inl e"
  shows "initialize_client_if_needed w s =
           (if is_Exception e then Inr () else Inl e,
            s\<lparr>calls := calls s @ [Construct (BASE_URL (get_config w)) (MEMU_API_KEY (get_config w))]\<rparr>)"
  using assms
  by (simp add: initialize_client_if_needed_def Let_def try_except_handles try_except_passes)

text \<open>A handle that is there after the ensure step means that the step has returned.\<close>

lemma initialize_handle_returns:
  assumes "memu_client (snd (initialize_client_if_needed w s)) = Some client"
  shows "fst (initialize_client_if_needed w s) = Inr ()"
proof (cases "memu_client s")
  case (Some c)
  then show ?thesis by (simp add: initialize_present)
next
  case None
  show ?thesis
  proof (cases "MEMU_API_KEY (get_config w) = []")
    case True
    with None show ?thesis by (simp add: initialize_no_key)
  next
    case False
    show ?thesis
    proof (cases "MemuClient w (BASE_URL (get_config w)) (MEMU_API_KEY (get_config w))")
      case (Inl e)
      with None False assms show ?thesis by (simp add: initialize_fails)
    next
      case (Inr c)
      with None False show ?thesis by (simp add: initialize_constructs)
    qed
  qed
qed


section \<open>Facts about the entry points after the ensure step\<close>




lemma inject_present:
  assumes "memu_client (snd (initialize_client_if_needed w s)) = Some client"
      and "RECALL_TOP_K (get_config w) \<noteq> 0"
  shows "inject_relevant_memories w ctx s =
           try_except
             (inject_guarded w client (get_config w) ctx (snd (initialize_client_if_needed w s)))
             (\<lambda>e s2. (Inr [], s2))"
  using assms initialize_handle_returns [OF assms(1)]
  by (cases "initialize_client_if_needed w s") (simp add: inject_relevant_memories_def)



lemma recall_present:
  assumes "memu_client (snd (initialize_client_if_needed w s)) = Some client"
  shows "recall_memory w ctx query s =
           try_except (recall_guarded w client ctx query (snd (initialize_client_if_needed w s)))
             (\<lambda>e s2. (Inl (RuntimeError
                 (''Failed to recall memory: '' @ type_name e @ '': '' @ message e)), s2))"
  using assms initialize_handle_returns [OF assms]
  by (cases "initialize_client_if_needed w s") (simp add: recall_memory_def)



lemma memorize_present:
  assumes "memu_client (snd (initialize_client_if_needed w s)) = Some client"
  shows "memorize_conversation w ctx chat_key conversation agent_id agent_name s =
           try_except
             (memorize_guarded w client ctx conversation agent_id agent_name
                (snd (initialize_client_if_needed w s)))
             (\<lambda>e s2. (Inl (RuntimeError
                 (''Failed to memorize conversation: '' @ type_name e @ '': '' @ message e)),
               s2))"
  using assms initialize_handle_returns [OF assms]
  by (cases "initialize_client_if_needed w s") (simp add: memorize_conversation_def)

section \<open>What the injection hook does with a raise\<close>










section \<open>Failures of the explicit operations reach the caller\<close>













section \<open>The client is constructed lazily, and once\<close>

lemma initialize_funpow_present:
  "memu_client s = Some c \<Longrightarrow> ((\<lambda>s. snd (initialize_client_if_needed w s)) ^^ n) s = s"
  by (induction n) (simp_all add: initialize_present)

lemma initialize_funpow_constructs:
  assumes "memu_client s = None" and "MEMU_API_KEY (get_config w) \<noteq> []"
      and "MemuClient w (BASE_URL (get_config w)) (MEMU_API_KEY (get_config w)) = Inr c"
      and "0 < n"
  shows "((\<lambda>s. snd (initialize_client_if_needed w s)) ^^ n) s =
           s\<lparr>calls := calls s @ [Construct (BASE_URL (get_config w)) (MEMU_API_KEY (get_config w))],
             memu_client := Some c\<rparr>"
proof -
  from \<open>0 < n\<close> obtain m where n: "n = Suc m" by (cases n) auto
  let ?s1 = "snd (initialize_client_if_needed w s)"
  have s1: "?s1 = s\<lparr>calls := calls s @ [Construct (BASE_URL (get_config w)) (MEMU_API_KEY (get_config w))],
             memu_client := Some c\<rparr>"
    using assms(1-3) by (simp add: initialize_constructs)
  then have "memu_client ?s1 = Some c" by simp
  then have "((\<lambda>s. snd (initialize_client_if_needed w s)) ^^ m) ?s1 = ?s1"
    by (rule initialize_funpow_present)
  moreover have "((\<lambda>s. snd (initialize_client_if_needed w s)) ^^ Suc m) s =
      ((\<lambda>s. snd (initialize_client_if_needed w s)) ^^ m) ?s1"
    by (simp only: funpow_Suc_right o_apply)
  ultimately show ?thesis by (simp only: n s1)
qed

text \<open>
  Claim C3. When the handle exists, the ensure step returns at once and leaves the state
  as it is. With a configuration that has a key and for which the constructor succeeds,
  any positive number of successive ensure steps from an absent handle calls the
  constructor exactly once and ends with that handle. When the constructor raises, the
  handle stays absent, and the next ensure step calls the constructor again.
\<close>

theorem lazy_client_lifecycle:
  fixes w :: "'c env"
  shows
  "(\<forall>c. memu_client s = Some c \<longrightarrow> initialize_client_if_needed w s = (Inr (), s)) \<and>
   (\<forall>c n. memu_client s = None \<and> MEMU_API_KEY (get_config w) \<noteq> [] \<and>
      MemuClient w (BASE_URL (get_config w)) (MEMU_API_KEY (get_config w)) = Inr c \<and> 0 < n \<longrightarrow>
      memu_client (((\<lambda>s. snd (initialize_client_if_needed w s)) ^^ n) s) = Some c \<and>
      calls (((\<lambda>s. snd (initialize_client_if_needed w s)) ^^ n) s) =
        calls s @ [Construct (BASE_URL (get_config w)) (MEMU_API_KEY (get_config w))]) \<and>
   (\<forall>e. memu_client s = None \<and> MEMU_API_KEY (get_config w) \<noteq> [] \<and>
      MemuClient w (BASE_URL (get_config w)) (MEMU_API_KEY (get_config w)) = Inl e \<longrightarrow>
      memu_client (snd (initialize_client_if_needed w s)) = None \<and>
      calls (snd (initialize_client_if_needed w s)) =
        calls s @ [Construct (BASE_URL (get_config w)) (MEMU_API_KEY (get_config w))] \<and>
      (\<forall>w'. MEMU_API_KEY (get_config w') \<noteq> [] \<longrightarrow>
         calls (snd (initialize_client_if_needed w' (snd (initialize_client_if_needed w s)))) =
           calls s @ [Construct (BASE_URL (get_config w)) (MEMU_API_KEY (get_config w)),
                      Construct (BASE_URL (get_config w')) (MEMU_API_KEY (get_config w'))] \<and>
         memu_client (snd (initialize_client_if_needed w' (snd (initialize_client_if_needed w s)))) =
           (case MemuClient w' (BASE_URL (get_config w')) (MEMU_API_KEY (get_config w')) of
              Inr c \<Rightarrow> Some c | Inl e' \<Rightarrow> None)))"
proof (intro conjI allI impI)
  fix c assume "memu_client s = Some c"
  then show "initialize_client_if_needed w s = (Inr (), s)" by (rule initialize_present)
next
  fix c :: 'c and n :: nat
  assume "memu_client s = None \<and> MEMU_API_KEY (get_config w) \<noteq> [] \<and>
      MemuClient w (BASE_URL (get_config w)) (MEMU_API_KEY (get_config w)) = Inr c \<and> 0 < n"
  then have *: "((\<lambda>s. snd (initialize_client_if_needed w s)) ^^ n) s =
           s\<lparr>calls := calls s @ [Construct (BASE_URL (get_config w)) (MEMU_API_KEY (get_config w))],
             memu_client := Some c\<rparr>"
    by (elim conjE) (rule initialize_funpow_constructs)
  show "memu_client (((\<lambda>s. snd (initialize_client_if_needed w s)) ^^ n) s) = Some c"
    by (simp add: *)
  show "calls (((\<lambda>s. snd (initialize_client_if_needed w s)) ^^ n) s) =
        calls s @ [Construct (BASE_URL (get_config w)) (MEMU_API_KEY (get_config w))]"
    by (simp add: *)
next
  fix e
  assume "memu_client s = None \<and> MEMU_API_KEY (get_config w) \<noteq> [] \<and>
      MemuClient w (BASE_URL (get_config w)) (MEMU_API_KEY (get_config w)) = Inl e"
  then have absent: "memu_client s = None"
    and key: "MEMU_API_KEY (get_config w) \<noteq> []"
    and raised: "MemuClient w (BASE_URL (get_config w)) (MEMU_API_KEY (get_config w)) = Inl e"
    by simp_all
  let ?s1 = "s\<lparr>calls := calls s @
                [Construct (BASE_URL (get_config w)) (MEMU_API_KEY (get_config w))]\<rparr>"
  have *: "snd (initialize_client_if_needed w s) = ?s1"
    by (simp add: initialize_fails [OF absent key raised])
  have absent1: "memu_client ?s1 = None"
    by (simp add: absent)
  show "memu_client (snd (initialize_client_if_needed w s)) = None"
    by (simp add: * absent)
  show "calls (snd (initialize_client_if_needed w s)) =
        calls s @ [Construct (BASE_URL (get_config w)) (MEMU_API_KEY (get_config w))]"
    by (simp add: *)
  fix w' :: "'c env"
  assume key': "MEMU_API_KEY (get_config w') \<noteq> []"
  show "calls (snd (initialize_client_if_needed w' (snd (initialize_client_if_needed w s)))) =
           calls s @ [Construct (BASE_URL (get_config w)) (MEMU_API_KEY (get_config w)),
                      Construct (BASE_URL (get_config w')) (MEMU_API_KEY (get_config w'))]"
  proof (cases "MemuClient w' (BASE_URL (get_config w')) (MEMU_API_KEY (get_config w'))")
    case (Inl e')
    show ?thesis unfolding * by (simp add: initialize_fails [OF absent1 key' Inl])
  next
    case (Inr c)
    show ?thesis unfolding * by (simp add: initialize_constructs [OF absent1 key' Inr])
  qed
  show "memu_client (snd (initialize_client_if_needed w' (snd (initialize_client_if_needed w s)))) =
           (case MemuClient w' (BASE_URL (get_config w')) (MEMU_API_KEY (get_config w')) of
              Inr c \<Rightarrow> Some c | Inl e' \<Rightarrow> None)"
  proof (cases "MemuClient w' (BASE_URL (get_config w')) (MEMU_API_KEY (get_config w'))")
    case (Inl e')
    show ?thesis unfolding * by (simp add: initialize_fails [OF absent1 key' Inl] absent Inl)
  next
    case (Inr c)
    show ?thesis unfolding * by (simp add: initialize_constructs [OF absent1 key' Inr] Inr)
  qed
qed

theorem lazy_client_lifecycle_witness:
  "initialize_client_if_needed good_env \<lparr>memu_client = Some (), calls = []\<rparr> =
     (Inr (), \<lparr>memu_client = Some (), calls = []\<rparr>) \<and>
   MEMU_API_KEY (get_config good_env) \<noteq> [] \<and>
   MemuClient good_env (BASE_URL (get_config good_env)) (MEMU_API_KEY (get_config good_env)) =
     Inr () \<and>
   memu_client (((\<lambda>s. snd (initialize_client_if_needed good_env s)) ^^ 3) initial_state) = Some () \<and>
   calls (((\<lambda>s. snd (initialize_client_if_needed good_env s)) ^^ 3) initial_state) =
     [Construct ''https://api.memu.so'' ''key''] \<and>
   MemuClient broken_env (BASE_URL (get_config broken_env)) (MEMU_API_KEY (get_config broken_env)) =
     Inl (Exn True ''ValueError'' ''bad url'') \<and>
   memu_client (snd (initialize_client_if_needed broken_env initial_state)) = None \<and>
   calls (snd (initialize_client_if_needed good_env
            (snd (initialize_client_if_needed broken_env initial_state)))) =
     [Construct ''https://api.memu.so'' ''key'', Construct ''https://api.memu.so'' ''key''] \<and>
   memu_client (snd (initialize_client_if_needed good_env
                  (snd (initialize_client_if_needed broken_env initial_state)))) = Some ()"
proof -
  have key: "MEMU_API_KEY (get_config good_env) \<noteq> []"
    and url: "BASE_URL (get_config good_env) = ''https://api.memu.so''"
    and key': "MEMU_API_KEY (get_config good_env) = ''key''"
    and ok: "MemuClient good_env (BASE_URL (get_config good_env))
               (MEMU_API_KEY (get_config good_env)) = Inr ()"
    by (simp_all add: good_env_def cfg0_def)
  have bkey: "MEMU_API_KEY (get_config broken_env) \<noteq> []"
    and burl: "BASE_URL (get_config broken_env) = ''https://api.memu.so''"
    and bkey': "MEMU_API_KEY (get_config broken_env) = ''key''"
    and bad: "MemuClient broken_env (BASE_URL (get_config broken_env))
               (MEMU_API_KEY (get_config broken_env)) = Inl (Exn True ''ValueError'' ''bad url'')"
    by (simp_all add: broken_env_def failing_env_def cfg0_def)
  have absent: "memu_client (initial_state :: unit state) = None"
    and empty: "calls (initial_state :: unit state) = []"
    by (simp_all add: initial_state_def)
  have 1: "initialize_client_if_needed good_env \<lparr>memu_client = Some (), calls = []\<rparr> =
     (Inr (), \<lparr>memu_client = Some (), calls = []\<rparr>)"
    using lazy_client_lifecycle [of "\<lparr>memu_client = Some (), calls = []\<rparr>" good_env] by simp
  have 2: "memu_client (((\<lambda>s. snd (initialize_client_if_needed good_env s)) ^^ 3) initial_state) = Some () \<and>
   calls (((\<lambda>s. snd (initialize_client_if_needed good_env s)) ^^ 3) initial_state) =
     [Construct ''https://api.memu.so'' ''key'']"
    using lazy_client_lifecycle [of initial_state good_env] absent key ok
    by (simp add: url key' empty)
  have 3: "memu_client (snd (initialize_client_if_needed broken_env initial_state)) = None \<and>
   calls (snd (initialize_client_if_needed good_env
            (snd (initialize_client_if_needed broken_env initial_state)))) =
     [Construct ''https://api.memu.so'' ''key'', Construct ''https://api.memu.so'' ''key''] \<and>
   memu_client (snd (initialize_client_if_needed good_env
                  (snd (initialize_client_if_needed broken_env initial_state)))) = Some ()"
    using lazy_client_lifecycle [of initial_state broken_env] absent bkey bad key ok
    by (simp add: url key' burl bkey' empty)
  from 1 2 3 key ok bad show ?thesis by simp
qed

section \<open>When the injection hook does nothing\<close>






section \<open>The query of the injection hook\<close>







section \<open>What memorize submits and returns\<close>

lemma memorize_calls:
  assumes "memu_client (snd (initialize_client_if_needed w s)) = Some client"
  shows "calls (snd (memorize_conversation w ctx chat_key conversation agent_id agent_name s)) =
           calls (snd (initialize_client_if_needed w s)) @
             [Memorize [[(''role'', ''user''), (''content'', conversation)]]
                (from_chat_key ctx) (channel_name ctx)
                (case agent_id of Some a \<Rightarrow> a | None \<Rightarrow> AGENT_ID (get_config w))
                (case agent_name of Some a \<Rightarrow> a | None \<Rightarrow> AGENT_NAME (get_config w))]"
  by (simp add: memorize_present [OF assms] memorize_guarded_def try_except_def Let_def
        split: sum.splits)

lemma memorize_confirmation:
  assumes "fst (memorize_conversation w ctx chat_key conversation agent_id agent_name s) = Inr t"
  shows "t = confirmation_prefix @
             (case agent_name of Some a \<Rightarrow> a | None \<Rightarrow> AGENT_NAME (get_config w)) @
             confirmation_suffix"
  using assms
  by (cases "initialize_client_if_needed w s")
     (auto simp: memorize_conversation_def memorize_guarded_def try_except_def Let_def
        split: sum.splits option.splits if_splits)

lemma memorize_accepted:
  assumes "memu_client (snd (initialize_client_if_needed w s)) = Some client"
      and "client_memorize_conversation w client
             [[(''role'', ''user''), (''content'', conversation)]]
             (from_chat_key ctx) (channel_name ctx)
             (case agent_id of Some a \<Rightarrow> a | None \<Rightarrow> AGENT_ID (get_config w))
             (case agent_name of Some a \<Rightarrow> a | None \<Rightarrow> AGENT_NAME (get_config w)) = Inr r"
  shows "fst (memorize_conversation w ctx chat_key conversation agent_id agent_name s) =
           Inr (confirmation_prefix @
                (case agent_name of Some a \<Rightarrow> a | None \<Rightarrow> AGENT_NAME (get_config w)) @
                confirmation_suffix)"
  using assms(2)
  by (simp add: memorize_present [OF assms(1)] memorize_guarded_def try_except_def Let_def)

text \<open>
  Claim C6. The request that memorize submits carries the persona given by the caller
  where \<open>agent_id\<close> and \<open>agent_name\<close> are provided, and the configured \<open>AGENT_ID\<close> and
  \<open>AGENT_NAME\<close> where they are omitted. A confirmation that memorize returns is the fixed
  prefix, the resolved name and the fixed suffix, so it contains the resolved name.
\<close>

theorem persona_resolution:
  "(\<forall>client. memu_client (snd (initialize_client_if_needed w s)) = Some client \<longrightarrow>
      calls (snd (memorize_conversation w ctx chat_key conversation (Some x) (Some y) s)) =
        calls (snd (initialize_client_if_needed w s)) @
          [Memorize [[(''role'', ''user''), (''content'', conversation)]]
             (from_chat_key ctx) (channel_name ctx) x y] \<and>
      calls (snd (memorize_conversation w ctx chat_key conversation None None s)) =
        calls (snd (initialize_client_if_needed w s)) @
          [Memorize [[(''role'', ''user''), (''content'', conversation)]]
             (from_chat_key ctx) (channel_name ctx)
             (AGENT_ID (get_config w)) (AGENT_NAME (get_config w))] \<and>
      calls (snd (memorize_conversation w ctx chat_key conversation (Some x) None s)) =
        calls (snd (initialize_client_if_needed w s)) @
          [Memorize [[(''role'', ''user''), (''content'', conversation)]]
             (from_chat_key ctx) (channel_name ctx) x (AGENT_NAME (get_config w))] \<and>
      calls (snd (memorize_conversation w ctx chat_key conversation None (Some y) s)) =
        calls (snd (initialize_client_if_needed w s)) @
          [Memorize [[(''role'', ''user''), (''content'', conversation)]]
             (from_chat_key ctx) (channel_name ctx) (AGENT_ID (get_config w)) y]) \<and>
   (\<forall>t. fst (memorize_conversation w ctx chat_key conversation agent_id (Some y) s) = Inr t \<longrightarrow>
      t = confirmation_prefix @ y @ confirmation_suffix \<and> sublist y t) \<and>
   (\<forall>t. fst (memorize_conversation w ctx chat_key conversation agent_id None s) = Inr t \<longrightarrow>
      t = confirmation_prefix @ AGENT_NAME (get_config w) @ confirmation_suffix \<and>
      sublist (AGENT_NAME (get_config w)) t) \<and>
   (\<forall>client r.
      memu_client (snd (initialize_client_if_needed w s)) = Some client \<and>
      client_memorize_conversation w client
        [[(''role'', ''user''), (''content'', conversation)]]
        (from_chat_key ctx) (channel_name ctx) x y = Inr r \<longrightarrow>
      fst (memorize_conversation w ctx chat_key conversation (Some x) (Some y) s) =
        Inr (confirmation_prefix @ y @ confirmation_suffix))"
proof (intro conjI allI impI)
  fix t
  assume "fst (memorize_conversation w ctx chat_key conversation agent_id (Some y) s) = Inr t"
  then have *: "t = confirmation_prefix @ y @ confirmation_suffix"
    by (auto dest: memorize_confirmation)
  then show "t = confirmation_prefix @ y @ confirmation_suffix" .
  from * show "sublist y t" by simp
next
  fix t
  assume "fst (memorize_conversation w ctx chat_key conversation agent_id None s) = Inr t"
  then have *: "t = confirmation_prefix @ AGENT_NAME (get_config w) @ confirmation_suffix"
    by (auto dest: memorize_confirmation)
  then show "t = confirmation_prefix @ AGENT_NAME (get_config w) @ confirmation_suffix" .
  from * show "sublist (AGENT_NAME (get_config w)) t" by simp
next
  fix client r
  assume "memu_client (snd (initialize_client_if_needed w s)) = Some client \<and>
      client_memorize_conversation w client
        [[(''role'', ''user''), (''content'', conversation)]]
        (from_chat_key ctx) (channel_name ctx) x y = Inr r"
  then show "fst (memorize_conversation w ctx chat_key conversation (Some x) (Some y) s) =
        Inr (confirmation_prefix @ y @ confirmation_suffix)"
    using memorize_accepted [of w s client conversation ctx "Some x" "Some y" r chat_key]
    by simp
qed (simp_all add: memorize_calls)

theorem persona_resolution_witness:
  "memu_client (snd (initialize_client_if_needed good_env initial_state)) = Some () \<and>
   calls (snd (memorize_conversation good_env ctx0 ''chat_1'' ''likes blue''
                 (Some ''X'') (Some ''Y'') initial_state)) =
     [Construct ''https://api.memu.so'' ''key'',
      Memorize [[(''role'', ''user''), (''content'', ''likes blue'')]] ''chat_1'' ''Alice''
        ''X'' ''Y''] \<and>
   calls (snd (memorize_conversation good_env ctx0 ''chat_1'' ''likes blue''
                 None None initial_state)) =
     [Construct ''https://api.memu.so'' ''key'',
      Memorize [[(''role'', ''user''), (''content'', ''likes blue'')]] ''chat_1'' ''Alice''
        ''nekro_agent'' ''Nekro Assistant''] \<and>
   fst (memorize_conversation good_env ctx0 ''chat_1'' ''likes blue''
          (Some ''X'') (Some ''Y'') initial_state) =
     Inr (confirmation_prefix @ ''Y'' @ confirmation_suffix) \<and>
   sublist ''Y'' (confirmation_prefix @ ''Y'' @ confirmation_suffix)"
proof -
  have init: "initialize_client_if_needed good_env initial_state =
      (Inr (), \<lparr>memu_client = Some (), calls = [Construct ''https://api.memu.so'' ''key'']\<rparr>)"
    by (simp add: initialize_client_if_needed_def try_except_def good_env_def cfg0_def
          initial_state_def)
  have cfg: "AGENT_ID (get_config good_env) = ''nekro_agent''"
    "AGENT_NAME (get_config good_env) = ''Nekro Assistant''"
    by (simp_all add: good_env_def cfg0_def)
  have ctx: "from_chat_key ctx0 = ''chat_1''" "channel_name ctx0 = ''Alice''"
    by (simp_all add: ctx0_def)
  have accepted: "client_memorize_conversation good_env ()
        [[(''role'', ''user''), (''content'', ''likes blue'')]]
        (from_chat_key ctx0) (channel_name ctx0) ''X'' ''Y'' = Inr \<lparr>task_id = ''task_42''\<rparr>"
    by (simp add: good_env_def)
  note a = persona_resolution [of good_env initial_state ctx0 "''chat_1''" "''likes blue''"
             "''X''" "''Y''" "Some ''X''"]
  have present: "memu_client (snd (initialize_client_if_needed good_env initial_state)) = Some ()"
    by (simp add: init)
  from a present have 1:
    "calls (snd (memorize_conversation good_env ctx0 ''chat_1'' ''likes blue''
                 (Some ''X'') (Some ''Y'') initial_state)) =
       calls (snd (initialize_client_if_needed good_env initial_state)) @
          [Memorize [[(''role'', ''user''), (''content'', ''likes blue'')]]
             (from_chat_key ctx0) (channel_name ctx0) ''X'' ''Y'']"
    by blast
  from a present have 2:
    "calls (snd (memorize_conversation good_env ctx0 ''chat_1'' ''likes blue''
                 None None initial_state)) =
       calls (snd (initialize_client_if_needed good_env initial_state)) @
          [Memorize [[(''role'', ''user''), (''content'', ''likes blue'')]]
             (from_chat_key ctx0) (channel_name ctx0)
             (AGENT_ID (get_config good_env)) (AGENT_NAME (get_config good_env))]"
    by blast
  from a present accepted have 3:
    "fst (memorize_conversation good_env ctx0 ''chat_1'' ''likes blue''
          (Some ''X'') (Some ''Y'') initial_state) =
     Inr (confirmation_prefix @ ''Y'' @ confirmation_suffix)"
    by blast
  with a have 4: "sublist ''Y'' (confirmation_prefix @ ''Y'' @ confirmation_suffix)"
    by blast
  from 1 2 3 4 present show ?thesis
    unfolding init cfg ctx by simp
qed

section \<open>The text the injection hook returns\<close>

lemma inject_result:
  assumes "memu_client (snd (initialize_client_if_needed w s)) = Some client"
      and "RECALL_TOP_K (get_config w) \<noteq> 0"
      and "message_history ctx \<noteq> []"
      and "client_retrieve_related_memory_items w client (query_text ctx) (from_chat_key ctx)
             (RECALL_TOP_K (get_config w)) = Inr response"
  shows "fst (inject_relevant_memories w ctx s) =
           Inr (case response of
                  None \<Rightarrow> []
                | Some r \<Rightarrow>
                    if related_memories r = [] then []
                    else join newline (append_prompt_lines [memories_header] (related_memories r)))"
  using assms(3,4)
  by (simp add: inject_present [OF assms(1,2)] inject_guarded_def try_except_def Let_def
        query_text_empty split: option.splits)

lemma join_header_lines:
  "join newline (append_prompt_lines [memories_header] ms) =
     join newline (memories_header # map (\<lambda>m. ''- '' @ memory_content (memory m)) ms)"
  "join newline (memories_header # map (\<lambda>m. ''- '' @ memory_content (memory m)) ms) =
     memories_header @ concat (map (\<lambda>m. newline @ ''- '' @ memory_content (memory m)) ms)"
  by (simp_all add: append_prompt_lines_map join_Cons comp_def)

text \<open>
  Claim C7. When retrieval returns nothing or an empty list of memories, the hook returns
  the empty string. When it returns a non-empty list, the hook returns the header line
  followed by one line \<open>- content\<close> per item, joined by newlines: every item line is
  preceded by a newline and nothing follows the last one.
\<close>

theorem injection_formatting:
  "\<forall>client.
     memu_client (snd (initialize_client_if_needed w s)) = Some client \<and>
     RECALL_TOP_K (get_config w) \<noteq> 0 \<and> message_history ctx \<noteq> [] \<longrightarrow>
     (client_retrieve_related_memory_items w client (query_text ctx) (from_chat_key ctx)
        (RECALL_TOP_K (get_config w)) = Inr None \<longrightarrow>
      fst (inject_relevant_memories w ctx s) = Inr []) \<and>
     (\<forall>r. client_retrieve_related_memory_items w client (query_text ctx) (from_chat_key ctx)
            (RECALL_TOP_K (get_config w)) = Inr (Some r) \<and> related_memories r = [] \<longrightarrow>
          fst (inject_relevant_memories w ctx s) = Inr []) \<and>
     (\<forall>r. client_retrieve_related_memory_items w client (query_text ctx) (from_chat_key ctx)
            (RECALL_TOP_K (get_config w)) = Inr (Some r) \<and> related_memories r \<noteq> [] \<longrightarrow>
          fst (inject_relevant_memories w ctx s) =
            Inr (join newline
                   (memories_header #
                    map (\<lambda>m. ''- '' @ memory_content (memory m)) (related_memories r))) \<and>
          fst (inject_relevant_memories w ctx s) =
            Inr (memories_header @
                 concat (map (\<lambda>m. newline @ ''- '' @ memory_content (memory m))
                           (related_memories r))))"
proof (intro allI impI, elim conjE, intro conjI allI impI)
  fix client
  assume pre: "memu_client (snd (initialize_client_if_needed w s)) = Some client"
    "RECALL_TOP_K (get_config w) \<noteq> 0" "message_history ctx \<noteq> []"
  note result = inject_result [OF pre]
  {
    assume "client_retrieve_related_memory_items w client (query_text ctx) (from_chat_key ctx)
        (RECALL_TOP_K (get_config w)) = Inr None"
    then show "fst (inject_relevant_memories w ctx s) = Inr []"
      by (simp add: result)
  }
  {
    fix r
    assume "client_retrieve_related_memory_items w client (query_text ctx) (from_chat_key ctx)
            (RECALL_TOP_K (get_config w)) = Inr (Some r) \<and> related_memories r = []"
    then show "fst (inject_relevant_memories w ctx s) = Inr []"
      by (simp add: result)
  }
  {
    fix r
    assume "client_retrieve_related_memory_items w client (query_text ctx) (from_chat_key ctx)
            (RECALL_TOP_K (get_config w)) = Inr (Some r) \<and> related_memories r \<noteq> []"
    then have *: "fst (inject_relevant_memories w ctx s) =
        Inr (join newline (append_prompt_lines [memories_header] (related_memories r)))"
      by (simp add: result)
    show "fst (inject_relevant_memories w ctx s) =
            Inr (join newline
                   (memories_header #
                    map (\<lambda>m. ''- '' @ memory_content (memory m)) (related_memories r)))"
      by (simp only: * join_header_lines(1))
    show "fst (inject_relevant_memories w ctx s) =
            Inr (memories_header @
                 concat (map (\<lambda>m. newline @ ''- '' @ memory_content (memory m))
                           (related_memories r)))"
      by (simp only: * join_header_lines)
  }
qed

theorem injection_formatting_witness:
  "memu_client (snd (initialize_client_if_needed good_env initial_state)) = Some () \<and>
   RECALL_TOP_K (get_config good_env) \<noteq> 0 \<and> message_history ctx0 \<noteq> [] \<and>
   client_retrieve_related_memory_items good_env () (query_text ctx0) (from_chat_key ctx0)
     (RECALL_TOP_K (get_config good_env)) = Inr (Some \<lparr>related_memories = two_memories\<rparr>) \<and>
   fst (inject_relevant_memories good_env ctx0 initial_state) =
     Inr (''--- Relevant Memories Retrieved From Your Past ---'' @ newline @
          ''- likes blue'' @ newline @ ''- dislikes coffee'')"
proof -
  have pre: "memu_client (snd (initialize_client_if_needed good_env initial_state)) = Some () \<and>
      RECALL_TOP_K (get_config good_env) \<noteq> 0 \<and> message_history ctx0 \<noteq> []"
    by (simp add: initialize_client_if_needed_def try_except_def good_env_def cfg0_def
          initial_state_def ctx0_def)
  have found: "client_retrieve_related_memory_items good_env () (query_text ctx0)
      (from_chat_key ctx0) (RECALL_TOP_K (get_config good_env)) =
      Inr (Some \<lparr>related_memories = two_memories\<rparr>) \<and>
      related_memories \<lparr>related_memories = two_memories\<rparr> \<noteq> []"
    by (simp add: good_env_def two_memories_def)
  from injection_formatting [of good_env initial_state ctx0] pre found
  have "fst (inject_relevant_memories good_env ctx0 initial_state) =
      Inr (memories_header @
           concat (map (\<lambda>m. newline @ ''- '' @ memory_content (memory m))
                     (related_memories \<lparr>related_memories = two_memories\<rparr>)))"
    by blast
  then have "fst (inject_relevant_memories good_env ctx0 initial_state) =
     Inr (''--- Relevant Memories Retrieved From Your Past ---'' @ newline @
          ''- likes blue'' @ newline @ ''- dislikes coffee'')"
    by (simp add: memories_header_def two_memories_def)
  with pre found show ?thesis by blast
qed

section \<open>The text recall returns\<close>

lemma recall_result:
  assumes "memu_client (snd (initialize_client_if_needed w s)) = Some client"
      and "client_retrieve_related_memory_items w client query (from_chat_key ctx) 3 = Inr response"
  shows "fst (recall_memory w ctx query s) =
           Inr (case response of
                  None \<Rightarrow> nothing_found_message
                | Some r \<Rightarrow>
                    if related_memories r = [] then nothing_found_message
                    else append_numbered lead_in 0 (related_memories r))"
  using assms(2)
  by (simp add: recall_present [OF assms(1)] recall_guarded_def try_except_def Let_def
        split: option.splits)

text \<open>
  Claim C8. When retrieval returns nothing or an empty list of memories, recall returns
  the fixed message that nothing was found. When it returns a non-empty list, recall
  returns the lead-in line followed by one line per item, numbered from 1, each made of
  the number, a dot, a space, the content of the item and a newline.
\<close>

theorem query_formatting:
  "(\<forall>client.
     memu_client (snd (initialize_client_if_needed w s)) = Some client \<longrightarrow>
     (client_retrieve_related_memory_items w client query (from_chat_key ctx) 3 = Inr None \<longrightarrow>
      fst (recall_memory w ctx query s) = Inr nothing_found_message) \<and>
     (\<forall>r. client_retrieve_related_memory_items w client query (from_chat_key ctx) 3 =
            Inr (Some r) \<and> related_memories r = [] \<longrightarrow>
          fst (recall_memory w ctx query s) = Inr nothing_found_message) \<and>
     (\<forall>r. client_retrieve_related_memory_items w client query (from_chat_key ctx) 3 =
            Inr (Some r) \<and> related_memories r \<noteq> [] \<longrightarrow>
          fst (recall_memory w ctx query s) =
            Inr (lead_in @
                 concat (map (\<lambda>k. str_nat (Suc k) @ ''. '' @
                                   memory_content (memory (related_memories r ! k)) @ newline)
                           [0..<length (related_memories r)])))) \<and>
   suffix newline lead_in"
proof (intro conjI allI impI)
  show "suffix newline lead_in"
    by (rule suffixI) (rule lead_in_def)
next
  fix client
  assume pre: "memu_client (snd (initialize_client_if_needed w s)) = Some client"
  assume "client_retrieve_related_memory_items w client query (from_chat_key ctx) 3 = Inr None"
  with pre show "fst (recall_memory w ctx query s) = Inr nothing_found_message"
    by (simp add: recall_result)
next
  fix client r
  assume pre: "memu_client (snd (initialize_client_if_needed w s)) = Some client"
  assume "client_retrieve_related_memory_items w client query (from_chat_key ctx) 3 =
            Inr (Some r) \<and> related_memories r = []"
  with pre show "fst (recall_memory w ctx query s) = Inr nothing_found_message"
    by (simp add: recall_result)
next
  fix client r
  assume pre: "memu_client (snd (initialize_client_if_needed w s)) = Some client"
  assume "client_retrieve_related_memory_items w client query (from_chat_key ctx) 3 =
            Inr (Some r) \<and> related_memories r \<noteq> []"
  with pre have "fst (recall_memory w ctx query s) =
      Inr (append_numbered lead_in 0 (related_memories r))"
    by (simp add: recall_result)
  then show "fst (recall_memory w ctx query s) =
            Inr (lead_in @
                 concat (map (\<lambda>k. str_nat (Suc k) @ ''. '' @
                                   memory_content (memory (related_memories r ! k)) @ newline)
                           [0..<length (related_memories r)]))"
    by (simp add: append_numbered_from)
qed

theorem query_formatting_witness:
  "memu_client (snd (initialize_client_if_needed good_env initial_state)) = Some () \<and>
   client_retrieve_related_memory_items good_env () ''colour'' (from_chat_key ctx0) 3 =
     Inr (Some \<lparr>related_memories = two_memories\<rparr>) \<and>
   fst (recall_memory good_env ctx0 ''colour'' initial_state) =
     Inr (lead_in @ ''1. likes blue'' @ newline @ ''2. dislikes coffee'' @ newline)"
proof -
  have pre: "memu_client (snd (initialize_client_if_needed good_env initial_state)) = Some ()"
    by (simp add: initialize_client_if_needed_def try_except_def good_env_def cfg0_def
          initial_state_def)
  have found: "client_retrieve_related_memory_items good_env () ''colour'' (from_chat_key ctx0) 3 =
      Inr (Some \<lparr>related_memories = two_memories\<rparr>) \<and>
      related_memories \<lparr>related_memories = two_memories\<rparr> \<noteq> []"
    by (simp add: good_env_def two_memories_def)
  have digits: "str_nat (Suc 0) = ''1''" "str_nat (Suc (Suc 0)) = ''2''"
    by (simp_all add: str_nat.simps digit_def)
  from query_formatting [of good_env initial_state "''colour''" ctx0] pre found
  have "fst (recall_memory good_env ctx0 ''colour'' initial_state) =
      Inr (lead_in @
           concat (map (\<lambda>k. str_nat (Suc k) @ ''. '' @
                         memory_content (memory (related_memories \<lparr>related_memories = two_memories\<rparr> ! k)) @ newline)
                     [0..<length (related_memories \<lparr>related_memories = two_memories\<rparr>)]))"
    by blast
  then have "fst (recall_memory good_env ctx0 ''colour'' initial_state) =
     Inr (lead_in @ ''1. likes blue'' @ newline @ ''2. dislikes coffee'' @ newline)"
    by (simp add: two_memories_def digits upt_rec [of 0] upt_rec [of 1] upt_rec [of "Suc 0"])
  with pre found show ?thesis by blast
qed

section \<open>The chat key argument of memorize\<close>

text \<open>
  Claim C9. Two calls of memorize that differ only in the \<open>chat_key\<close> argument return
  the same result and leave the same state, so they submit the same request; the
  requester id of the request is the \<open>from_chat_key\<close> of the context.
\<close>

theorem chat_key_has_no_effect:
  "memorize_conversation w ctx chat_key conversation agent_id agent_name s =
     memorize_conversation w ctx chat_key' conversation agent_id agent_name s \<and>
   (\<forall>client. memu_client (snd (initialize_client_if_needed w s)) = Some client \<longrightarrow>
      (\<exists>fragment name a b.
         calls (snd (memorize_conversation w ctx chat_key conversation agent_id agent_name s)) =
           calls (snd (initialize_client_if_needed w s)) @
             [Memorize fragment (from_chat_key ctx) name a b]))"
proof (intro conjI allI impI)
  show "memorize_conversation w ctx chat_key conversation agent_id agent_name s =
     memorize_conversation w ctx chat_key' conversation agent_id agent_name s"
    by (simp add: memorize_conversation_def)
next
  fix client
  assume "memu_client (snd (initialize_client_if_needed w s)) = Some client"
  then show "\<exists>fragment name a b.
         calls (snd (memorize_conversation w ctx chat_key conversation agent_id agent_name s)) =
           calls (snd (initialize_client_if_needed w s)) @
             [Memorize fragment (from_chat_key ctx) name a b]"
    by (simp add: memorize_calls)
qed

theorem chat_key_has_no_effect_witness:
  "memu_client (snd (initialize_client_if_needed good_env initial_state)) = Some () \<and>
   memorize_conversation good_env ctx0 ''chat_1'' ''likes blue'' None None initial_state =
     memorize_conversation good_env ctx0 ''another_chat'' ''likes blue'' None None initial_state \<and>
   (\<exists>fragment name a b.
      calls (snd (memorize_conversation good_env ctx0 ''another_chat'' ''likes blue'' None None
                    initial_state)) =
        [Construct ''https://api.memu.so'' ''key'', Memorize fragment ''chat_1'' name a b])"
proof -
  have init: "initialize_client_if_needed good_env initial_state =
      (Inr (), \<lparr>memu_client = Some (), calls = [Construct ''https://api.memu.so'' ''key'']\<rparr>)"
    by (simp add: initialize_client_if_needed_def try_except_def good_env_def cfg0_def
          initial_state_def)
  have key: "from_chat_key ctx0 = ''chat_1''"
    by (simp add: ctx0_def)
  have present: "memu_client (snd (initialize_client_if_needed good_env initial_state)) = Some ()"
    by (simp add: init)
  from chat_key_has_no_effect
         [of good_env ctx0 "''another_chat''" "''likes blue''" None None initial_state "''chat_1''"]
       present
  have "memorize_conversation good_env ctx0 ''another_chat'' ''likes blue'' None None initial_state =
     memorize_conversation good_env ctx0 ''chat_1'' ''likes blue'' None None initial_state \<and>
   (\<exists>fragment name a b.
      calls (snd (memorize_conversation good_env ctx0 ''another_chat'' ''likes blue'' None None
                    initial_state)) =
        calls (snd (initialize_client_if_needed good_env initial_state)) @
          [Memorize fragment (from_chat_key ctx0) name a b])"
    by blast
  note both = this
  note eq = both [THEN conjunct1, symmetric]
  from both [THEN conjunct2]
  have requester: "\<exists>fragment name a b.
      calls (snd (memorize_conversation good_env ctx0 ''another_chat'' ''likes blue'' None None
                    initial_state)) =
        [Construct ''https://api.memu.so'' ''key'', Memorize fragment ''chat_1'' name a b]"
    unfolding init key by simp
  show ?thesis
    by (intro conjI) (rule present, rule eq, rule requester)
qed

section \<open>Empty persona arguments\<close>

text \<open>
  Claim C10. An empty string given as \<open>agent_id\<close> or \<open>agent_name\<close> is submitted as it
  is, and an empty \<open>agent_name\<close> is the name in the confirmation; the configured defaults
  are submitted when the arguments are omitted.
\<close>

theorem empty_persona_counts_as_provided:
  "(\<forall>client. memu_client (snd (initialize_client_if_needed w s)) = Some client \<longrightarrow>
      calls (snd (memorize_conversation w ctx chat_key conversation (Some []) agent_name s)) =
        calls (snd (initialize_client_if_needed w s)) @
          [Memorize [[(''role'', ''user''), (''content'', conversation)]]
             (from_chat_key ctx) (channel_name ctx) []
             (case agent_name of Some a \<Rightarrow> a | None \<Rightarrow> AGENT_NAME (get_config w))] \<and>
      calls (snd (memorize_conversation w ctx chat_key conversation agent_id (Some []) s)) =
        calls (snd (initialize_client_if_needed w s)) @
          [Memorize [[(''role'', ''user''), (''content'', conversation)]]
             (from_chat_key ctx) (channel_name ctx)
             (case agent_id of Some a \<Rightarrow> a | None \<Rightarrow> AGENT_ID (get_config w)) []] \<and>
      calls (snd (memorize_conversation w ctx chat_key conversation None None s)) =
        calls (snd (initialize_client_if_needed w s)) @
          [Memorize [[(''role'', ''user''), (''content'', conversation)]]
             (from_chat_key ctx) (channel_name ctx)
             (AGENT_ID (get_config w)) (AGENT_NAME (get_config w))]) \<and>
   (\<forall>client r.
      memu_client (snd (initialize_client_if_needed w s)) = Some client \<and>
      client_memorize_conversation w client
        [[(''role'', ''user''), (''content'', conversation)]]
        (from_chat_key ctx) (channel_name ctx)
        (case agent_id of Some a \<Rightarrow> a | None \<Rightarrow> AGENT_ID (get_config w)) [] = Inr r \<longrightarrow>
      fst (memorize_conversation w ctx chat_key conversation agent_id (Some []) s) =
        Inr (confirmation_prefix @ [] @ confirmation_suffix))"
proof (intro conjI allI impI)
  fix client r
  assume "memu_client (snd (initialize_client_if_needed w s)) = Some client \<and>
      client_memorize_conversation w client
        [[(''role'', ''user''), (''content'', conversation)]]
        (from_chat_key ctx) (channel_name ctx)
        (case agent_id of Some a \<Rightarrow> a | None \<Rightarrow> AGENT_ID (get_config w)) [] = Inr r"
  then show "fst (memorize_conversation w ctx chat_key conversation agent_id (Some []) s) =
        Inr (confirmation_prefix @ [] @ confirmation_suffix)"
    using memorize_accepted [of w s client conversation ctx agent_id "Some []" r chat_key]
    by simp
qed (simp_all add: memorize_calls)

theorem empty_persona_counts_as_provided_witness:
  "memu_client (snd (initialize_client_if_needed good_env initial_state)) = Some () \<and>
   AGENT_ID (get_config good_env) = ''nekro_agent'' \<and>
   AGENT_NAME (get_config good_env) = ''Nekro Assistant'' \<and>
   calls (snd (memorize_conversation good_env ctx0 ''chat_1'' ''likes blue''
                 (Some []) (Some []) initial_state)) =
     [Construct ''https://api.memu.so'' ''key'',
      Memorize [[(''role'', ''user''), (''content'', ''likes blue'')]] ''chat_1'' ''Alice'' [] []] \<and>
   fst (memorize_conversation good_env ctx0 ''chat_1'' ''likes blue''
          (Some []) (Some []) initial_state) =
     Inr (confirmation_prefix @ confirmation_suffix)"
proof -
  have init: "initialize_client_if_needed good_env initial_state =
      (Inr (), \<lparr>memu_client = Some (), calls = [Construct ''https://api.memu.so'' ''key'']\<rparr>)"
    by (simp add: initialize_client_if_needed_def try_except_def good_env_def cfg0_def
          initial_state_def)
  have cfg: "AGENT_ID (get_config good_env) = ''nekro_agent''"
    "AGENT_NAME (get_config good_env) = ''Nekro Assistant''"
    by (simp_all add: good_env_def cfg0_def)
  have ctx: "from_chat_key ctx0 = ''chat_1''" "channel_name ctx0 = ''Alice''"
    by (simp_all add: ctx0_def)
  have present: "memu_client (snd (initialize_client_if_needed good_env initial_state)) = Some ()"
    by (simp add: init)
  have accepted: "client_memorize_conversation good_env ()
        [[(''role'', ''user''), (''content'', ''likes blue'')]]
        (from_chat_key ctx0) (channel_name ctx0)
        (case Some [] of Some a \<Rightarrow> a | None \<Rightarrow> AGENT_ID (get_config good_env)) [] =
        Inr \<lparr>task_id = ''task_42''\<rparr>"
    by (simp add: good_env_def)
  note a = empty_persona_counts_as_provided
             [of good_env initial_state ctx0 "''chat_1''" "''likes blue''" "Some []" "Some []"]
  from a present have 1:
    "calls (snd (memorize_conversation good_env ctx0 ''chat_1'' ''likes blue''
                 (Some []) (Some []) initial_state)) =
       calls (snd (initialize_client_if_needed good_env initial_state)) @
          [Memorize [[(''role'', ''user''), (''content'', ''likes blue'')]]
             (from_chat_key ctx0) (channel_name ctx0) []
             (case Some [] of Some a \<Rightarrow> a | None \<Rightarrow> AGENT_NAME (get_config good_env))]"
    by blast
  from a present accepted have 2:
    "fst (memorize_conversation good_env ctx0 ''chat_1'' ''likes blue''
          (Some []) (Some []) initial_state) =
     Inr (confirmation_prefix @ [] @ confirmation_suffix)"
    by blast
  from 1 2 present cfg show ?thesis
    unfolding init ctx by simp
qed

end
